theory Spec2Isabelle
  imports Main "HOL-Library.Sublist"
begin

section \<open>connect: the static file middleware (lib/connect/middleware/static.js)\<close>

text \<open>
  The middleware is a closure \<open>static(req, res, next)\<close> over \<open>root\<close>, \<open>maxAge\<close> and
  \<open>cache\<close>, and a module-level object \<open>_cache\<close>. The embedding threads the cache store
  through the handler, returns what the handler did to \<open>res\<close> and \<open>next\<close> as a value, and
  logs every filesystem call and every access to \<open>_cache\<close> in a trace. The callbacks of
  \<open>fs.stat\<close> and \<open>fs.readFile\<close> run once each, in order, so they are flattened into
  direct style.
\<close>

subsection \<open>JavaScript values and strings\<close>

text \<open>The option values \<open>maxAge\<close> and \<open>cache\<close>: undefined, a boolean or a number.\<close>

datatype jsval = Undefined | Bool bool | Num nat

fun truthy :: "jsval \<Rightarrow> bool" where
  "truthy Undefined = False"
| "truthy (Bool b) = b"
| "truthy (Num n) = (n \<noteq> 0)"

text \<open>
  A property of an object that holds a string, read with \<open>obj[key]\<close>: \<open>None\<close> is
  \<open>undefined\<close>. Both \<open>undefined\<close> and the empty string are falsy.
\<close>

fun truthy_str :: "string option \<Rightarrow> bool" where
  "truthy_str None = False"
| "truthy_str (Some s) = (s \<noteq> [])"

text \<open>\<open>ToNumber\<close> on an option value; \<open>None\<close> is NaN.\<close>

fun to_number :: "jsval \<Rightarrow> nat option" where
  "to_number Undefined = None"
| "to_number (Bool b) = Some (if b then 1 else 0)"
| "to_number (Num n) = Some n"

text \<open>Decimal digits of a non-negative integer, as string concatenation prints a number.\<close>

definition digit :: "nat \<Rightarrow> char" where
  "digit n = ''0123456789'' ! (n mod 10)"

fun show_nat :: "nat \<Rightarrow> string" where
  "show_nat n = (if n < 10 then [digit n] else show_nat (n div 10) @ [digit (n mod 10)])"

declare show_nat.simps [simp del]

definition show_int :: "int \<Rightarrow> string" where
  "show_int i = (if i < 0 then CHR ''-'' # show_nat (nat (- i)) else show_nat (nat i))"

text \<open>\<open>String.prototype.indexOf\<close>: the first position of \<open>needle\<close>, or \<open>-1\<close>.\<close>

fun indexOf_from :: "string \<Rightarrow> string \<Rightarrow> int \<Rightarrow> int" where
  "indexOf_from [] needle k = (if needle = [] then k else - 1)"
| "indexOf_from (c # cs) needle k =
     (if prefix needle (c # cs) then k else indexOf_from cs needle (k + 1))"

definition indexOf :: "string \<Rightarrow> string \<Rightarrow> int" where
  "indexOf s needle = indexOf_from s needle 0"

text \<open>The bitwise complement \<open>~x\<close> of a small integer.\<close>

definition bitnot :: "int \<Rightarrow> int" where
  "bitnot x = - x - 1"

subsection \<open>Requests, responses, the filesystem and the cache\<close>

text \<open>
  Header objects keep their keys in insertion order. Values are kept as \<open>writeHead\<close>
  sends them: a number (\<open>Content-Length\<close>) as its decimal digits.
\<close>

type_synonym headers = "(string \<times> string) list"

definition hget :: "headers \<Rightarrow> string \<Rightarrow> string option" where
  "hget hs k = map_of hs k"

definition hdelete :: "headers \<Rightarrow> string \<Rightarrow> headers" where
  "hdelete hs k = filter (\<lambda>kv. fst kv \<noteq> k) hs"

record request =
  req_method :: string
  req_url :: string
  req_headers :: "string \<rightharpoonup> string"

record stat =
  st_size :: nat
  st_mtime :: int
  st_isDirectory :: bool

datatype fs_err = FsErr (errno: nat)

definition process_ENOENT :: nat where
  "process_ENOENT = 2"

record cache_entry =
  ce_headers :: headers
  ce_body :: string

type_synonym cache_store = "string \<rightharpoonup> cache_entry"

record response =
  res_status :: nat
  res_headers :: headers
  res_body :: "string option"

text \<open>
  What the handler did with the request: called \<open>next()\<close>, called \<open>next(err)\<close>, wrote a
  response, or threw (the \<open>URIError\<close> of \<open>decodeURIComponent\<close>).
\<close>

datatype result = Next | NextErr fs_err | Responded response | Threw

datatype event = FsStat string | FsReadFile string | CacheLookup string | CacheStore string

record outcome =
  out_result :: result
  out_cache :: cache_store
  out_trace :: "event list"

definition logged :: "event \<Rightarrow> outcome \<Rightarrow> outcome" where
  "logged e out = out\<lparr>out_trace := e # out_trace out\<rparr>"

text \<open>
  The collaborators outside the repository: \<open>url.parse(u).pathname\<close>,
  \<open>decodeURIComponent\<close> (\<open>None\<close> when it throws), \<open>path.join\<close>, \<open>mime.lookup\<close>,
  \<open>Date.prototype.toUTCString\<close>, \<open>new Date(string)\<close> (\<open>None\<close> is an invalid date),
  \<open>fs.stat\<close> and \<open>fs.readFile\<close>, and the engine's printing of the number \<open>n / 1000\<close>
  for large \<open>n\<close>. Times are milliseconds since the epoch.
\<close>

record env =
  url_pathname :: "string \<Rightarrow> string"
  decodeURIComponent :: "string \<Rightarrow> string option"
  path_join :: "string \<Rightarrow> string \<Rightarrow> string"
  mime_lookup :: "string \<Rightarrow> string"
  toUTCString :: "int \<Rightarrow> string"
  new_Date :: "string \<Rightarrow> int option"
  fs_stat :: "string \<Rightarrow> fs_err + stat"
  fs_readFile :: "string \<Rightarrow> fs_err + string"
  quotient_toString :: "nat \<Rightarrow> string"

text \<open>
  The string of \<open>maxAge / 1000\<close>. The division is JavaScript's floating-point division, so
  a value that is no multiple of 1000 prints with a fraction (\<open>1500 / 1000\<close> is \<open>1.5\<close>,
  \<open>true / 1000\<close> is \<open>0.001\<close>). While \<open>maxAge\<close> is below \<open>10^15\<close> the quotient has at
  most 15 significant digits and the engine prints exactly the three-digit expansion
  without its trailing zeros. From \<open>10^15\<close> on the double is rounded and the digits are
  those of the engine's number printer, \<open>quotient_toString\<close>.
\<close>

definition frac3 :: "nat \<Rightarrow> string" where
  "frac3 r = rev (dropWhile (\<lambda>c. c = CHR ''0'') (rev [digit (r div 100), digit (r div 10), digit r]))"

definition div1000_str :: "env \<Rightarrow> jsval \<Rightarrow> string" where
  "div1000_str e v =
     (case to_number v of
        None \<Rightarrow> ''NaN''
      | Some n \<Rightarrow>
          if 1000000000000000 \<le> n then quotient_toString e n
          else if n mod 1000 = 0 then show_nat (n div 1000)
          else show_nat (n div 1000) @ ''.'' @ frac3 (n mod 1000))"

subsection \<open>Construction: \<open>static(root, options)\<close>\<close>

record options =
  opt_maxAge :: jsval
  opt_cache :: jsval

record config =
  cfg_root :: string
  cfg_maxAge :: jsval
  cfg_cache :: jsval

text \<open>\<open>None\<close> is the thrown \<open>Error('static() root path required')\<close>.\<close>

definition static_setup :: "string \<Rightarrow> options \<Rightarrow> config option" where
  "static_setup root opts =
     (let maxAge = (if truthy (opt_maxAge opts) then opt_maxAge opts else Num 0);
          cache = opt_cache opts
      in if root = [] then None
         else Some \<lparr>cfg_root = root,
                    cfg_maxAge = (if truthy cache \<and> \<not> truthy maxAge then cache else maxAge),
                    cfg_cache = cache\<rparr>)"

subsection \<open>The helpers\<close>

text \<open>
  \<open>lastModified <= modifiedSince\<close> on two \<open>Date\<close> objects compares their time values;
  a comparison with NaN is false.
\<close>

fun date_le :: "int option \<Rightarrow> int option \<Rightarrow> bool" where
  "date_le (Some a) (Some b) = (a \<le> b)"
| "date_le _ _ = False"

definition modified :: "env \<Rightarrow> request \<Rightarrow> headers \<Rightarrow> bool" where
  "modified e req hs =
     (let modifiedSince = req_headers req ''if-modified-since'';
          lastModified = hget hs ''Last-Modified'';
          noneMatch = req_headers req ''if-none-match'';
          etag = hget hs ''ETag''
      in if truthy_str noneMatch \<and> truthy_str etag \<and> noneMatch = etag then False
         else if truthy_str modifiedSince \<and> truthy_str lastModified then
           (let modifiedSince' = new_Date e (the modifiedSince);
                lastModified' = new_Date e (the lastModified)
            in if modifiedSince' \<noteq> None
               then (if date_le lastModified' modifiedSince' then False else True)
               else True)
         else True)"

text \<open>\<open>conditionalGET\<close> is used under \<open>!\<close> only: the model returns its truthiness.\<close>

definition conditionalGET :: "request \<Rightarrow> bool" where
  "conditionalGET req =
     (truthy_str (req_headers req ''if-modified-since'')
      \<or> truthy_str (req_headers req ''if-none-match''))"

definition etag :: "stat \<Rightarrow> string" where
  "etag st = show_nat (st_size st) @ ''-'' @ show_int (st_mtime st)"

definition notModified :: "headers \<Rightarrow> response" where
  "notModified hs =
     \<lparr>res_status = 304,
      res_headers = foldl (\<lambda>h field. if 0 = indexOf field ''Content'' then hdelete h field else h)
                      hs (map fst hs),
      res_body = None\<rparr>"

definition forbidden :: response where
  "forbidden =
     (let body = ''Forbidden''
      in \<lparr>res_status = 403,
          res_headers = [(''Content-Type'', ''text/plain''),
                         (''Content-Length'', show_nat (length body))],
          res_body = Some body\<rparr>)"

text \<open>
  The function that line 232 assigns to \<open>exports.clearCache\<close>, applied to the store
  \<open>_cache\<close>; \<open>None\<close> is a call without the argument. Who can call it is settled by the
  loading of the module, below.
\<close>

definition clearCache :: "string option \<Rightarrow> cache_store \<Rightarrow> cache_store" where
  "clearCache key c = (if truthy_str key then c((the key) := None) else Map.empty)"

subsection \<open>The request handler\<close>

definition build_headers :: "env \<Rightarrow> config \<Rightarrow> string \<Rightarrow> stat \<Rightarrow> headers" where
  "build_headers e cfg filename st =
     [(''Content-Type'', mime_lookup e filename),
      (''Content-Length'', show_nat (st_size st)),
      (''Last-Modified'', toUTCString e (st_mtime st)),
      (''Cache-Control'', ''public max-age='' @ div1000_str e (cfg_maxAge cfg)),
      (''ETag'', etag st)]"

definition onRead ::
  "env \<Rightarrow> config \<Rightarrow> cache_store \<Rightarrow> request \<Rightarrow> string \<Rightarrow> stat \<Rightarrow> fs_err + string \<Rightarrow> outcome" where
  "onRead e cfg c req filename st rd =
     (case rd of
        Inl err \<Rightarrow> \<lparr>out_result = NextErr err, out_cache = c, out_trace = []\<rparr>
      | Inr data \<Rightarrow>
          (let headers = build_headers e cfg filename st
           in if \<not> modified e req headers
              then \<lparr>out_result = Responded (notModified headers), out_cache = c, out_trace = []\<rparr>
              else
                (let res = \<lparr>res_status = 200, res_headers = headers,
                              res_body = (if req_method req = ''HEAD'' then None else Some data)\<rparr>
                 in if truthy (cfg_cache cfg)
                    then \<lparr>out_result = Responded res,
                          out_cache = c(req_url req \<mapsto> \<lparr>ce_headers = headers, ce_body = data\<rparr>),
                          out_trace = [CacheStore (req_url req)]\<rparr>
                    else \<lparr>out_result = Responded res, out_cache = c, out_trace = []\<rparr>)))"

definition onStat ::
  "env \<Rightarrow> config \<Rightarrow> cache_store \<Rightarrow> request \<Rightarrow> string \<Rightarrow> fs_err + stat \<Rightarrow> outcome" where
  "onStat e cfg c req filename sr =
     (case sr of
        Inl err \<Rightarrow>
          \<lparr>out_result = (if errno err = process_ENOENT then Next else NextErr err),
           out_cache = c, out_trace = []\<rparr>
      | Inr st \<Rightarrow>
          if st_isDirectory st then \<lparr>out_result = Next, out_cache = c, out_trace = []\<rparr>
          else logged (FsReadFile filename)
                 (onRead e cfg c req filename st (fs_readFile e filename)))"

definition resolve :: "env \<Rightarrow> config \<Rightarrow> string \<Rightarrow> string" where
  "resolve e cfg decoded =
     (let filename = path_join e (cfg_root cfg) decoded
      in if filename \<noteq> [] \<and> last filename = CHR ''/'' then filename @ ''index.html''
         else filename)"

text \<open>
  The handler. \<open>head\<close> is \<open>req.method == 'HEAD'\<close>. An entry of \<open>_cache\<close> is an
  object, so \<open>hit = _cache[req.url]\<close> is truthy exactly when the key has an entry; the
  members that \<open>_cache\<close> inherits from \<open>Object.prototype\<close> are left out, no request
  target is one of their names. The lookup is the last operand of \<open>&&\<close>, so it happens
  only when \<open>cache\<close> is truthy and the request is not conditional.
\<close>

definition static :: "env \<Rightarrow> config \<Rightarrow> cache_store \<Rightarrow> request \<Rightarrow> outcome" where
  "static e cfg c req =
     (if req_method req \<noteq> ''GET'' \<and> req_method req \<noteq> ''HEAD''
      then \<lparr>out_result = Next, out_cache = c, out_trace = []\<rparr>
      else
        (case decodeURIComponent e (url_pathname e (req_url req)) of
           None \<Rightarrow> \<lparr>out_result = Threw, out_cache = c, out_trace = []\<rparr>
         | Some decoded \<Rightarrow>
             if bitnot (indexOf decoded ''..'') \<noteq> 0
             then \<lparr>out_result = Responded forbidden, out_cache = c, out_trace = []\<rparr>
             else
               (let filename = resolve e cfg decoded
                in if truthy (cfg_cache cfg) \<and> \<not> conditionalGET req
                   then
                     (case c (req_url req) of
                        Some hit \<Rightarrow>
                          \<lparr>out_result = Responded
                             \<lparr>res_status = 200, res_headers = ce_headers hit,
                              res_body = (if req_method req = ''HEAD'' then None
                                          else Some (ce_body hit))\<rparr>,
                           out_cache = c, out_trace = [CacheLookup (req_url req)]\<rparr>
                      | None \<Rightarrow>
                          logged (CacheLookup (req_url req))
                            (logged (FsStat filename)
                              (onStat e cfg c req filename (fs_stat e filename))))
                   else logged (FsStat filename)
                          (onStat e cfg c req filename (fs_stat e filename)))))"

subsection \<open>Loading the module\<close>

text \<open>
  Node runs the file with two names, \<open>exports\<close> and \<open>module\<close>, where \<open>module.exports\<close> is
  at first the object that \<open>exports\<close> names, and \<open>require\<close> returns what \<open>module.exports\<close>
  holds when the file is done. Line 47 assigns the function \<open>static\<close> to
  \<open>module.exports\<close>; line 232 sets the property \<open>clearCache\<close> on \<open>exports\<close>. The two
  names stop being aliases at line 47, so objects are kept in a store and named by
  reference. Only own properties are kept: no member that a function or an object
  inherits is called \<open>clearCache\<close>.
\<close>

datatype callee = Static_function | ClearCache_function

record jsobject =
  callable :: "callee option"
  own :: "string \<rightharpoonup> nat"

record module_state =
  objects :: "nat \<rightharpoonup> jsobject"
  next_ref :: nat
  exports_ref :: nat
  module_exports_ref :: nat

definition module_init :: module_state where
  "module_init =
     \<lparr>objects = [0 \<mapsto> \<lparr>callable = None, own = Map.empty\<rparr>],
      next_ref = 1, exports_ref = 0, module_exports_ref = 0\<rparr>"

text \<open>\<open>module.exports = function ...\<close>\<close>

definition assign_module_exports :: "callee \<Rightarrow> module_state \<Rightarrow> module_state" where
  "assign_module_exports f m =
     m\<lparr>objects := (objects m)(next_ref m \<mapsto> \<lparr>callable = Some f, own = Map.empty\<rparr>),
       next_ref := Suc (next_ref m),
       module_exports_ref := next_ref m\<rparr>"

text \<open>\<open>exports.name = function ...\<close>\<close>

definition set_exports_property :: "string \<Rightarrow> callee \<Rightarrow> module_state \<Rightarrow> module_state" where
  "set_exports_property name f m =
     (case objects m (exports_ref m) of
        None \<Rightarrow> m
      | Some ob \<Rightarrow>
          m\<lparr>objects := (objects m)
                 (next_ref m \<mapsto> \<lparr>callable = Some f, own = Map.empty\<rparr>,
                  exports_ref m \<mapsto> ob\<lparr>own := (own ob)(name \<mapsto> next_ref m)\<rparr>),
            next_ref := Suc (next_ref m)\<rparr>)"

text \<open>The file, top to bottom: line 47, then line 232.\<close>

definition load_static :: module_state where
  "load_static =
     set_exports_property ''clearCache'' ClearCache_function
       (assign_module_exports Static_function module_init)"

text \<open>
  \<open>require('./static')[name](...)\<close>: the call of a member of the loaded module. A
  member that is \<open>undefined\<close> cannot be called, which is a \<open>TypeError\<close>.
\<close>

datatype call_error = TypeError

definition call_member :: "module_state \<Rightarrow> nat \<Rightarrow> string \<Rightarrow> call_error + callee" where
  "call_member m r name =
     (case objects m r of
        None \<Rightarrow> Inl TypeError
      | Some ob \<Rightarrow>
          (case own ob name of
             None \<Rightarrow> Inl TypeError
           | Some r' \<Rightarrow>
               (case objects m r' of
                  None \<Rightarrow> Inl TypeError
                | Some f \<Rightarrow> (case callable f of None \<Rightarrow> Inl TypeError | Some g \<Rightarrow> Inr g))))"

subsection \<open>Notions of the specification\<close>

text \<open>
  A request carries a validator (and a header set carries a value) when the header is
  present with a non-empty value: an empty value is no token and no date.
\<close>

definition carries :: "string option \<Rightarrow> bool" where
  "carries v = (case v of None \<Rightarrow> False | Some s \<Rightarrow> s \<noteq> [])"

text \<open>
  The reference definition of the conditional validator, in the order of the
  specification: the entity-tag rule, then the date rule, then modified.
\<close>

definition modified_spec :: "env \<Rightarrow> request \<Rightarrow> headers \<Rightarrow> bool" where
  "modified_spec e req hs =
     (if carries (req_headers req ''if-none-match'')
         \<and> req_headers req ''if-none-match'' = hget hs ''ETag''
      then False
      else if carries (req_headers req ''if-modified-since'')
              \<and> carries (hget hs ''Last-Modified'')
              \<and> new_Date e (the (req_headers req ''if-modified-since'')) \<noteq> None
      then \<not> date_le (new_Date e (the (hget hs ''Last-Modified'')))
                      (new_Date e (the (req_headers req ''if-modified-since'')))
      else True)"

text \<open>The segments of a path: the pieces between its slashes.\<close>

fun segments :: "string \<Rightarrow> string list" where
  "segments [] = [[]]"
| "segments (c # cs) =
     (if c = CHR ''/'' then [] # segments cs
      else (case segments cs of [] \<Rightarrow> [[c]] | s # ss \<Rightarrow> (c # s) # ss))"

text \<open>Events of the trace that touch the filesystem, and those that touch the cache.\<close>

fun is_fs :: "event \<Rightarrow> bool" where
  "is_fs (FsStat p) = True"
| "is_fs (FsReadFile p) = True"
| "is_fs _ = False"

fun is_lookup :: "event \<Rightarrow> bool" where
  "is_lookup (CacheLookup k) = True"
| "is_lookup _ = False"

subsection \<open>A test double for the collaborators\<close>

text \<open>
  A small concrete environment on which the handler can be run: request targets in
  origin form, percent-escapes of ASCII characters, a root without trailing slash, a
  clock that stays within 1 January 1970, option values below \<open>10^15\<close>, and a filesystem with one regular file, one
  directory, one path whose stat fails with EACCES and one file whose read fails with EIO.
\<close>

definition stub_pathname :: "string \<Rightarrow> string" where
  "stub_pathname u = takeWhile (\<lambda>c. c \<noteq> CHR ''?'' \<and> c \<noteq> CHR ''#'') u"

definition hex_val :: "char \<Rightarrow> nat option" where
  "hex_val c =
     (let n = of_char c :: nat
      in if 48 \<le> n \<and> n \<le> 57 then Some (n - 48)
         else if 65 \<le> n \<and> n \<le> 70 then Some (n - 55)
         else if 97 \<le> n \<and> n \<le> 102 then Some (n - 87)
         else None)"

fun stub_decode :: "string \<Rightarrow> string option" where
  "stub_decode [] = Some []"
| "stub_decode [c] = (if c = CHR ''%'' then None else Some [c])"
| "stub_decode [c, d] =
     (if c = CHR ''%'' then None else map_option ((#) c) (stub_decode [d]))"
| "stub_decode (c # h # l # rest) =
     (if c = CHR ''%'' then
        (case (hex_val h, hex_val l) of
           (Some a, Some b) \<Rightarrow>
             if 16 * a + b < 128
             then map_option ((#) (char_of (16 * a + b))) (stub_decode rest)
             else None
         | _ \<Rightarrow> None)
      else map_option ((#) c) (stub_decode (h # l # rest)))"

definition two_digits :: "nat \<Rightarrow> string" where
  "two_digits n = [digit (n div 10), digit n]"

definition stub_toUTCString :: "int \<Rightarrow> string" where
  "stub_toUTCString m =
     (let s = nat (m div 1000)
      in ''Thu, 01 Jan 1970 '' @ two_digits (s div 3600 mod 24) @ '':''
           @ two_digits (s div 60 mod 60) @ '':'' @ two_digits (s mod 60) @ '' GMT'')"

definition digit_val :: "char \<Rightarrow> nat option" where
  "digit_val c =
     (let n = of_char c :: nat in if 48 \<le> n \<and> n \<le> 57 then Some (n - 48) else None)"

definition stub_new_Date :: "string \<Rightarrow> int option" where
  "stub_new_Date s =
     (if length s = 29 \<and> take 17 s = ''Thu, 01 Jan 1970 '' \<and> drop 25 s = '' GMT''
         \<and> s ! 19 = CHR '':'' \<and> s ! 22 = CHR '':''
      then
        (case map digit_val [s ! 17, s ! 18, s ! 20, s ! 21, s ! 23, s ! 24] of
           [Some a, Some b, Some c, Some d, Some f, Some g] \<Rightarrow>
             if 10 * a + b < 24 \<and> 10 * c + d < 60 \<and> 10 * f + g < 60
             then Some (int (((10 * a + b) * 3600 + (10 * c + d) * 60 + (10 * f + g)) * 1000))
             else None
         | _ \<Rightarrow> None)
      else None)"

definition stub_stat :: "string \<Rightarrow> fs_err + stat" where
  "stub_stat p =
     (if p = ''/srv/a.txt'' then Inr \<lparr>st_size = 5, st_mtime = 61500, st_isDirectory = False\<rparr>
      else if p = ''/srv/report..txt''
        then Inr \<lparr>st_size = 2, st_mtime = 0, st_isDirectory = False\<rparr>
      else if p = ''/srv/docs'' then Inr \<lparr>st_size = 4096, st_mtime = 0, st_isDirectory = True\<rparr>
      else if p = ''/srv/bad.txt'' then Inr \<lparr>st_size = 3, st_mtime = 0, st_isDirectory = False\<rparr>
      else if p = ''/srv/locked'' then Inl (FsErr 13)
      else Inl (FsErr 2))"

definition stub_readFile :: "string \<Rightarrow> fs_err + string" where
  "stub_readFile p =
     (if p = ''/srv/a.txt'' then Inr ''hello''
      else if p = ''/srv/report..txt'' then Inr ''ok''
      else if p = ''/srv/bad.txt'' then Inl (FsErr 5)
      else if p = ''/srv/docs'' then Inl (FsErr 21)
      else if p = ''/srv/locked'' then Inl (FsErr 13)
      else Inl (FsErr 2))"

definition stub_env :: env where
  "stub_env =
     \<lparr>url_pathname = stub_pathname,
      decodeURIComponent = stub_decode,
      path_join = (\<lambda>root p. root @ p),
      mime_lookup = (\<lambda>p. ''text/plain''),
      toUTCString = stub_toUTCString,
      new_Date = stub_new_Date,
      fs_stat = stub_stat,
      fs_readFile = stub_readFile,
      quotient_toString = (\<lambda>n. show_nat (n div 1000))\<rparr>"

definition stub_cfg :: "bool \<Rightarrow> config" where
  "stub_cfg caching = \<lparr>cfg_root = ''/srv'', cfg_maxAge = Num 0, cfg_cache = Bool caching\<rparr>"

definition get_req :: "string \<Rightarrow> request" where
  "get_req u = \<lparr>req_method = ''GET'', req_url = u, req_headers = Map.empty\<rparr>"

definition a_txt_headers :: headers where
  "a_txt_headers =
     [(''Content-Type'', ''text/plain''),
      (''Content-Length'', ''5''),
      (''Last-Modified'', ''Thu, 01 Jan 1970 00:01:01 GMT''),
      (''Cache-Control'', ''public max-age=0''),
      (''ETag'', ''5-61500'')]"

definition stale_store :: cache_store where
  "stale_store = [''/a.txt'' \<mapsto> \<lparr>ce_headers = [(''ETag'', ''4-0'')], ce_body = ''past''\<rparr>]"

definition stub_req :: "string \<Rightarrow> string \<Rightarrow> (string \<times> string) list \<Rightarrow> request" where
  "stub_req m u hs = \<lparr>req_method = m, req_url = u, req_headers = map_of hs\<rparr>"

text \<open>The configuration of \<open>static('/srv', {maxAge: 86400000, cache: true})\<close>.\<close>

definition day_cfg :: config where
  "day_cfg = \<lparr>cfg_root = ''/srv'', cfg_maxAge = Num 86400000, cfg_cache = Bool True\<rparr>"

definition a_txt_day_headers :: headers where
  "a_txt_day_headers =
     [(''Content-Type'', ''text/plain''),
      (''Content-Length'', ''5''),
      (''Last-Modified'', ''Thu, 01 Jan 1970 00:01:01 GMT''),
      (''Cache-Control'', ''public max-age=86400''),
      (''ETag'', ''5-61500'')]"

text \<open>
  The double with one more file, \<open>/srv/version\<close>, of the kind that procfs serves: its
  stat reports size 0 and its read returns 15 bytes.
\<close>

definition procfs_env :: env where
  "procfs_env =
     stub_env
       \<lparr>fs_stat := (\<lambda>p. if p = ''/srv/version''
                          then Inr \<lparr>st_size = 0, st_mtime = 0, st_isDirectory = False\<rparr>
                          else stub_stat p),
        fs_readFile := (\<lambda>p. if p = ''/srv/version'' then Inr ''Linux version 6''
                              else stub_readFile p)\<rparr>"

section \<open>Properties\<close>

subsection \<open>Strings\<close>

lemma indexOf_from_lower: "indexOf_from s n k = - 1 \<or> k \<le> indexOf_from s n k"
  by (induction s arbitrary: k) (auto, force)

lemma indexOf_from_miss: "0 \<le> k \<Longrightarrow> (indexOf_from s n k = - 1) = (\<not> sublist n s)"
proof (induction s arbitrary: k)
  case Nil
  then show ?case by auto
next
  case (Cons c cs)
  show ?case
  proof (cases "prefix n (c # cs)")
    case True
    with Cons.prems show ?thesis by auto
  next
    case False
    with Cons.IH [of "k + 1"] Cons.prems show ?thesis
      by (simp add: sublist_Cons_right)
  qed
qed

lemma indexOf_zero: "(indexOf s n = 0) = prefix n s"
proof (cases s)
  case Nil
  then show ?thesis by (auto simp: indexOf_def)
next
  case (Cons c cs)
  from indexOf_from_lower [of cs n 1] have "indexOf_from cs n 1 \<noteq> 0" by auto
  with Cons show ?thesis by (auto simp: indexOf_def)
qed

lemma bitnot_indexOf: "(bitnot (indexOf s n) \<noteq> 0) = sublist n s"
  using indexOf_from_miss [of 0 s n] by (auto simp: bitnot_def indexOf_def)

lemma segments_nonempty: "segments s \<noteq> []"
  by (induction s) (auto split: list.splits)

lemma segments_sublist: "seg \<in> set (segments s) \<Longrightarrow> sublist seg s"
  and segments_hd_prefix: "prefix (hd (segments s)) s"
proof (induction s arbitrary: seg)
  case Nil
  { case 1 then show ?case by simp }
  { case 2 then show ?case by simp }
next
  case (Cons c cs)
  { case 1 
    then show ?case using Cons.IH(1) Cons.IH(2) segments_nonempty [of cs]
      by (cases "segments cs") (auto simp: sublist_Cons_right split: if_splits) }
  { case 2 
    then show ?case using Cons.IH(2) segments_nonempty [of cs]
      by (cases "segments cs") (auto split: if_splits) }
qed

lemma strip_fold:
  "foldl (\<lambda>h field. if prefix n field then hdelete h field else h) hs ks
     = filter (\<lambda>kv. \<not> (fst kv \<in> set ks \<and> prefix n (fst kv))) hs"
proof (induction ks arbitrary: hs)
  case Nil
  then show ?case by simp
next
  case (Cons k ks)
  show ?case
    by (simp add: Cons.IH hdelete_def) (auto intro: filter_cong)
qed

lemma notModified_headers:
  "res_headers (notModified hs) = filter (\<lambda>kv. \<not> prefix ''Content'' (fst kv)) hs"
  unfolding notModified_def by (simp add: indexOf_zero strip_fold) (auto intro: filter_cong)

lemma not_modified_conditional: "\<not> modified e req hs \<Longrightarrow> conditionalGET req"
  by (auto simp: modified_def conditionalGET_def Let_def split: if_splits)

lemma static_forbidden:
  assumes "req_method req = ''GET'' \<or> req_method req = ''HEAD''"
      and "decodeURIComponent e (url_pathname e (req_url req)) = Some decoded"
      and "sublist ''..'' decoded"
  shows "static e cfg c req = \<lparr>out_result = Responded forbidden, out_cache = c, out_trace = []\<rparr>"
  using assms by (auto simp: static_def bitnot_indexOf)

lemma static_resolved:
  assumes "req_method req = ''GET'' \<or> req_method req = ''HEAD''"
      and "decodeURIComponent e (url_pathname e (req_url req)) = Some decoded"
      and "\<not> sublist ''..'' decoded"
  shows "static e cfg c req =
     (if truthy (cfg_cache cfg) \<and> \<not> conditionalGET req
      then (case c (req_url req) of
              Some hit \<Rightarrow>
                \<lparr>out_result = Responded
                   \<lparr>res_status = 200, res_headers = ce_headers hit,
                    res_body = (if req_method req = ''HEAD'' then None else Some (ce_body hit))\<rparr>,
                 out_cache = c, out_trace = [CacheLookup (req_url req)]\<rparr>
            | None \<Rightarrow>
                logged (CacheLookup (req_url req))
                  (logged (FsStat (resolve e cfg decoded))
                    (onStat e cfg c req (resolve e cfg decoded) (fs_stat e (resolve e cfg decoded)))))
      else logged (FsStat (resolve e cfg decoded))
             (onStat e cfg c req (resolve e cfg decoded) (fs_stat e (resolve e cfg decoded))))"
  using assms by (auto simp: static_def bitnot_indexOf Let_def)

lemma forbidden_eq:
  "forbidden = \<lparr>res_status = 403,
      res_headers = [(''Content-Type'', ''text/plain''), (''Content-Length'', ''9'')],
      res_body = Some ''Forbidden''\<rparr>"
  by (simp add: forbidden_def show_nat.simps digit_def)

subsection \<open>Running the handler on the test double\<close>

lemmas handler_defs = static_def resolve_def conditionalGET_def logged_def onStat_def onRead_def
  build_headers_def modified_def hget_def etag_def show_int_def div1000_str_def
  indexOf_def bitnot_def Let_def process_ENOENT_def

lemmas stub_defs = stub_env_def stub_cfg_def get_req_def stub_pathname_def stub_stat_def
  stub_readFile_def stub_toUTCString_def two_digits_def digit_def show_nat.simps
  a_txt_headers_def
  stub_new_Date_def digit_val_def

lemma stub_decode_escaped: "stub_decode ''/%2e%2e/a.txt'' = Some ''/../a.txt''"
  by code_simp

subsection \<open>The conditional validator\<close>

text \<open>
  C1. \<open>modified(req, headers)\<close> is the reference definition of the specification: an
  \<open>if-none-match\<close> token equal to the candidate ETag gives false whatever the date
  headers say; otherwise an \<open>if-modified-since\<close> value that parses, against a
  \<open>Last-Modified\<close> value, gives false exactly when \<open>lastModified <= modifiedSince\<close>;
  everything else gives true.
\<close>

theorem modified_refines_spec: "modified e req hs = modified_spec e req hs"
  by (auto simp: modified_def modified_spec_def carries_def Let_def split: option.splits)

theorem modified_refines_spec_witness:
  "\<not> modified stub_env
       \<lparr>req_method = ''GET'', req_url = ''/a.txt'',
        req_headers = [''if-modified-since'' \<mapsto> ''Thu, 01 Jan 1970 00:01:01 GMT'']\<rparr>
       a_txt_headers
   \<and> modified stub_env
       \<lparr>req_method = ''GET'', req_url = ''/a.txt'',
        req_headers = [''if-modified-since'' \<mapsto> ''Thu, 01 Jan 1970 00:01:00 GMT'']\<rparr>
       a_txt_headers
   \<and> \<not> modified stub_env
       \<lparr>req_method = ''GET'', req_url = ''/a.txt'',
        req_headers = [''if-none-match'' \<mapsto> ''5-61500'',
                       ''if-modified-since'' \<mapsto> ''Thu, 01 Jan 1970 00:01:00 GMT'']\<rparr>
       a_txt_headers
   \<and> modified stub_env (get_req ''/a.txt'') a_txt_headers"
  by (simp add: modified_refines_spec modified_spec_def carries_def hget_def stub_defs)

lemma unconditional_modified: "\<not> conditionalGET req \<Longrightarrow> modified e req hs"
  using not_modified_conditional by blast

lemma onStat_no_lookup: "filter is_lookup (out_trace (onStat e cfg c req f sr)) = []"
  by (auto simp: onStat_def onRead_def logged_def Let_def split: sum.splits)

subsection \<open>The cache\<close>

lemma conditionalGET_carries:
  "conditionalGET req =
     (carries (req_headers req ''if-modified-since'') \<or> carries (req_headers req ''if-none-match''))"
  by (auto simp: conditionalGET_def carries_def split: option.splits)

lemma day_first_get:
  "static stub_env day_cfg Map.empty (get_req ''/a.txt'') =
     \<lparr>out_result = Responded
        \<lparr>res_status = 200, res_headers = a_txt_day_headers, res_body = Some ''hello''\<rparr>,
      out_cache = [''/a.txt'' \<mapsto> \<lparr>ce_headers = a_txt_day_headers, ce_body = ''hello''\<rparr>],
      out_trace = [CacheLookup ''/a.txt'', FsStat ''/srv/a.txt'', FsReadFile ''/srv/a.txt'',
                   CacheStore ''/a.txt'']\<rparr>"
  by (simp add: handler_defs stub_defs day_cfg_def a_txt_day_headers_def)

text \<open>
  C2. With caching enabled, when an unconditional GET is answered with response \<open>r\<close>, the
  same GET on the store it leaves behind is answered with \<open>r\<close> again (status, headers
  and body), and its trace holds no \<open>fs.stat\<close> and no \<open>fs.readFile\<close>. When \<open>r\<close> is a
  200, the store left by the first request holds the headers and the body of \<open>r\<close> under
  \<open>req.url\<close>, and the second request does one thing, the lookup of that entry; when the
  store had no entry for \<open>req.url\<close> before, the first request is the one that stored it.
\<close>

theorem cached_get_idempotent:
  assumes "truthy (cfg_cache cfg)"
      and "req_method req = ''GET''"
      and "\<not> carries (req_headers req ''if-modified-since'')"
      and "\<not> carries (req_headers req ''if-none-match'')"
      and "out_result (static e cfg c req) = Responded r"
  shows "out_result (static e cfg (out_cache (static e cfg c req)) req) = Responded r
         \<and> filter is_fs (out_trace (static e cfg (out_cache (static e cfg c req)) req)) = []
         \<and> (res_status r = 200 \<longrightarrow>
              map_option ce_headers (out_cache (static e cfg c req) (req_url req))
                = Some (res_headers r)
              \<and> map_option ce_body (out_cache (static e cfg c req) (req_url req)) = res_body r
              \<and> out_trace (static e cfg (out_cache (static e cfg c req)) req)
                  = [CacheLookup (req_url req)])
         \<and> (res_status r = 200 \<and> c (req_url req) = None \<longrightarrow>
              CacheStore (req_url req) \<in> set (out_trace (static e cfg c req)))"
proof -
  have uncond: "\<not> conditionalGET req"
    using assms(3,4) by (simp add: conditionalGET_carries)
  show ?thesis
  proof (cases "decodeURIComponent e (url_pathname e (req_url req))")
    case None
    with assms show ?thesis by (simp add: static_def)
  next
    case (Some decoded)
    show ?thesis
    proof (cases "sublist ''..'' decoded")
      case True
      have "static e cfg c' req = \<lparr>out_result = Responded forbidden, out_cache = c', out_trace = []\<rparr>"
        for c'
        using static_forbidden [OF _ Some True] assms(2) by simp
      with assms(5) show ?thesis by (auto simp: forbidden_eq)
    next
      case False
      note res = static_resolved [OF _ Some False]
      show ?thesis
      proof (cases "c (req_url req)")
        case hit: (Some h)
        with assms uncond show ?thesis by (auto simp: res)
      next
        case None
        with assms uncond show ?thesis
          by (auto simp: res onStat_def onRead_def logged_def Let_def unconditional_modified
                   split: sum.splits if_splits)
      qed
    qed
  qed
qed

theorem cached_get_idempotent_witness:
  "static_setup ''/srv'' \<lparr>opt_maxAge = Num 86400000, opt_cache = Bool True\<rparr> = Some day_cfg
   \<and> out_result (static stub_env day_cfg Map.empty (get_req ''/a.txt''))
       = Responded \<lparr>res_status = 200, res_headers = a_txt_day_headers, res_body = Some ''hello''\<rparr>
   \<and> out_cache (static stub_env day_cfg Map.empty (get_req ''/a.txt''))
       = [''/a.txt'' \<mapsto> \<lparr>ce_headers = a_txt_day_headers, ce_body = ''hello''\<rparr>]
   \<and> CacheStore ''/a.txt'' \<in> set (out_trace (static stub_env day_cfg Map.empty (get_req ''/a.txt'')))
   \<and> out_result (static stub_env day_cfg
        [''/a.txt'' \<mapsto> \<lparr>ce_headers = a_txt_day_headers, ce_body = ''hello''\<rparr>] (get_req ''/a.txt''))
       = Responded \<lparr>res_status = 200, res_headers = a_txt_day_headers, res_body = Some ''hello''\<rparr>
   \<and> out_trace (static stub_env day_cfg
        [''/a.txt'' \<mapsto> \<lparr>ce_headers = a_txt_day_headers, ce_body = ''hello''\<rparr>] (get_req ''/a.txt''))
       = [CacheLookup ''/a.txt'']"
proof -
  let ?r = "\<lparr>res_status = 200, res_headers = a_txt_day_headers, res_body = Some ''hello''\<rparr>"
  have cfg: "static_setup ''/srv'' \<lparr>opt_maxAge = Num 86400000, opt_cache = Bool True\<rparr> = Some day_cfg"
    by (simp add: static_setup_def day_cfg_def)
  have hyp: "truthy (cfg_cache day_cfg)" "req_method (get_req ''/a.txt'') = ''GET''"
    "\<not> carries (req_headers (get_req ''/a.txt'') ''if-modified-since'')"
    "\<not> carries (req_headers (get_req ''/a.txt'') ''if-none-match'')"
    by (simp_all add: day_cfg_def get_req_def carries_def)
  have first: "out_result (static stub_env day_cfg Map.empty (get_req ''/a.txt'')) = Responded ?r"
    by (simp add: day_first_get)
  have url: "req_url (get_req ''/a.txt'') = ''/a.txt''" by (simp add: get_req_def)
  have st: "res_status ?r = 200" by simp
  note t = cached_get_idempotent [OF hyp first]
  have 2: "out_result (static stub_env day_cfg
             (out_cache (static stub_env day_cfg Map.empty (get_req ''/a.txt''))) (get_req ''/a.txt''))
           = Responded ?r"
    using t by blast
  have 3: "out_trace (static stub_env day_cfg
             (out_cache (static stub_env day_cfg Map.empty (get_req ''/a.txt''))) (get_req ''/a.txt''))
           = [CacheLookup ''/a.txt'']"
    using t st url by simp
  have 4: "CacheStore ''/a.txt'' \<in> set (out_trace (static stub_env day_cfg Map.empty (get_req ''/a.txt'')))"
    using t st url by simp
  from cfg first 2 3 4 show ?thesis by (simp add: day_first_get)
qed

subsection \<open>Path traversal\<close>

text \<open>
  C3. A GET or HEAD request whose decoded path has a \<open>..\<close> segment is answered with
  403 and the plain-text body \<open>Forbidden\<close>; the filesystem and the cache are not
  touched (the trace is empty and the store is unchanged), whatever they hold.
\<close>

theorem traversal_segment_forbidden:
  assumes "req_method req = ''GET'' \<or> req_method req = ''HEAD''"
      and "decodeURIComponent e (url_pathname e (req_url req)) = Some decoded"
      and "''..'' \<in> set (segments decoded)"
  shows "static e cfg c req =
           \<lparr>out_result = Responded
              \<lparr>res_status = 403,
               res_headers = [(''Content-Type'', ''text/plain''), (''Content-Length'', ''9'')],
               res_body = Some ''Forbidden''\<rparr>,
            out_cache = c, out_trace = []\<rparr>"
  using static_forbidden [OF assms(1,2) segments_sublist [OF assms(3)]]
  by (simp add: forbidden_eq)

theorem traversal_segment_forbidden_witness:
  "''..'' \<in> set (segments ''/../a.txt'')
   \<and> static stub_env (stub_cfg True)
        [''/%2e%2e/a.txt'' \<mapsto> \<lparr>ce_headers = a_txt_headers, ce_body = ''hello''\<rparr>]
        (get_req ''/%2e%2e/a.txt'') =
       \<lparr>out_result = Responded
          \<lparr>res_status = 403,
           res_headers = [(''Content-Type'', ''text/plain''), (''Content-Length'', ''9'')],
           res_body = Some ''Forbidden''\<rparr>,
        out_cache = [''/%2e%2e/a.txt'' \<mapsto> \<lparr>ce_headers = a_txt_headers, ce_body = ''hello''\<rparr>],
        out_trace = []\<rparr>"
proof -
  have seg: "''..'' \<in> set (segments ''/../a.txt'')" by simp
  have dec: "decodeURIComponent stub_env (url_pathname stub_env (req_url (get_req ''/%2e%2e/a.txt'')))
               = Some ''/../a.txt''"
    by (simp add: stub_env_def get_req_def stub_pathname_def stub_decode_escaped del: stub_decode.simps)
  have meth: "req_method (get_req ''/%2e%2e/a.txt'') = ''GET'' \<or> req_method (get_req ''/%2e%2e/a.txt'') = ''HEAD''"
    by (simp add: get_req_def)
  show ?thesis
    using traversal_segment_forbidden [OF meth dec seg] seg by simp
qed

lemma sublist_report: "sublist ''..'' ''/report..txt''"
  using sublist_appendI [of "''..''" "''/report''" "''txt''"] by simp

text \<open>
  C10. The rejection looks for the two characters \<open>..\<close> anywhere in the decoded path:
  a path such as \<open>/report..txt\<close>, which has no \<open>..\<close> segment, is answered with
  403 as well, also when the file exists under the root.
\<close>

theorem dotdot_substring_forbidden:
  assumes "req_method req = ''GET'' \<or> req_method req = ''HEAD''"
      and "decodeURIComponent e (url_pathname e (req_url req)) = Some decoded"
      and "sublist ''..'' decoded"
  shows "out_result (static e cfg c req) =
           Responded
              \<lparr>res_status = 403,
               res_headers = [(''Content-Type'', ''text/plain''), (''Content-Length'', ''9'')],
               res_body = Some ''Forbidden''\<rparr>
         \<and> out_trace (static e cfg c req) = []"
  using static_forbidden [OF assms] by (simp add: forbidden_eq)

theorem dotdot_substring_forbidden_witness:
  "sublist ''..'' ''/report..txt''
   \<and> ''..'' \<notin> set (segments ''/report..txt'')
   \<and> fs_stat stub_env ''/srv/report..txt''
       = Inr \<lparr>st_size = 2, st_mtime = 0, st_isDirectory = False\<rparr>
   \<and> fs_readFile stub_env ''/srv/report..txt'' = Inr ''ok''
   \<and> out_result (static stub_env (stub_cfg False) Map.empty (get_req ''/report..txt'')) =
       Responded
          \<lparr>res_status = 403,
           res_headers = [(''Content-Type'', ''text/plain''), (''Content-Length'', ''9'')],
           res_body = Some ''Forbidden''\<rparr>
   \<and> out_trace (static stub_env (stub_cfg False) Map.empty (get_req ''/report..txt'')) = []"
proof -
  have dec: "decodeURIComponent stub_env (url_pathname stub_env (req_url (get_req ''/report..txt'')))
               = Some ''/report..txt''"
    by (simp add: stub_env_def get_req_def stub_pathname_def)
  have meth: "req_method (get_req ''/report..txt'') = ''GET'' \<or> req_method (get_req ''/report..txt'') = ''HEAD''"
    by (simp add: get_req_def)
  have fs: "fs_stat stub_env ''/srv/report..txt''
       = Inr \<lparr>st_size = 2, st_mtime = 0, st_isDirectory = False\<rparr>
      \<and> fs_readFile stub_env ''/srv/report..txt'' = Inr ''ok''"
    by (simp add: stub_env_def stub_stat_def stub_readFile_def)
  show ?thesis
    using dotdot_substring_forbidden [OF meth dec sublist_report] sublist_report fs by simp
qed

subsection \<open>The cache lookup\<close>

lemma onStat_lookup_free: "CacheLookup k \<notin> set (out_trace (onStat e cfg c req f sr))"
  by (auto simp: onStat_def onRead_def logged_def Let_def split: sum.splits)

lemma no_dotdot_a_txt: "\<not> sublist ''..'' ''/a.txt''"
  using bitnot_indexOf [of "''/a.txt''" "''..''"] by (simp add: indexOf_def bitnot_def)

lemma stub_decode_a_txt:
  "decodeURIComponent stub_env (url_pathname stub_env ''/a.txt'') = Some ''/a.txt''"
  by (simp add: stub_env_def stub_pathname_def)

text \<open>
  C4. A lookup in the cache happens only when caching is enabled and the request carries
  neither validator, and its key is \<open>req.url\<close> as received. For a GET or HEAD request
  that passes the traversal check: a hit is answered with status 200, the cached headers
  and the cached body (no body for HEAD), and the trace holds the lookup alone; a request
  that carries a validator makes no lookup, and the first thing it does is \<open>fs.stat\<close>
  on the resolved path.
\<close>

theorem cache_lookup_gate:
  "(CacheLookup k \<in> set (out_trace (static e cfg c req)) \<longrightarrow>
      truthy (cfg_cache cfg)
      \<and> \<not> carries (req_headers req ''if-modified-since'')
      \<and> \<not> carries (req_headers req ''if-none-match'')
      \<and> k = req_url req)
   \<and> ((req_method req = ''GET'' \<or> req_method req = ''HEAD'')
        \<and> decodeURIComponent e (url_pathname e (req_url req)) = Some decoded
        \<and> \<not> sublist ''..'' decoded \<longrightarrow>
        (truthy (cfg_cache cfg)
         \<and> \<not> carries (req_headers req ''if-modified-since'')
         \<and> \<not> carries (req_headers req ''if-none-match'')
         \<and> c (req_url req) = Some hit \<longrightarrow>
           static e cfg c req =
             \<lparr>out_result = Responded
                \<lparr>res_status = 200, res_headers = ce_headers hit,
                 res_body = (if req_method req = ''HEAD'' then None else Some (ce_body hit))\<rparr>,
              out_cache = c, out_trace = [CacheLookup (req_url req)]\<rparr>)
        \<and> (carries (req_headers req ''if-modified-since'')
            \<or> carries (req_headers req ''if-none-match'') \<longrightarrow>
           filter is_lookup (out_trace (static e cfg c req)) = []
           \<and> take 1 (out_trace (static e cfg c req)) = [FsStat (resolve e cfg decoded)]))"
proof (intro conjI impI)
  assume "CacheLookup k \<in> set (out_trace (static e cfg c req))"
  then show "truthy (cfg_cache cfg)"
    "\<not> carries (req_headers req ''if-modified-since'')"
    "\<not> carries (req_headers req ''if-none-match'')"
    "k = req_url req"
    using onStat_lookup_free [of k e cfg c req]
    by (auto simp: static_def logged_def Let_def conditionalGET_carries
             split: if_splits option.splits)
next
  assume a: "(req_method req = ''GET'' \<or> req_method req = ''HEAD'')
        \<and> decodeURIComponent e (url_pathname e (req_url req)) = Some decoded
        \<and> \<not> sublist ''..'' decoded"
  then have res: "static e cfg c req =
     (if truthy (cfg_cache cfg) \<and> \<not> conditionalGET req
      then (case c (req_url req) of
              Some hit \<Rightarrow>
                \<lparr>out_result = Responded
                   \<lparr>res_status = 200, res_headers = ce_headers hit,
                    res_body = (if req_method req = ''HEAD'' then None else Some (ce_body hit))\<rparr>,
                 out_cache = c, out_trace = [CacheLookup (req_url req)]\<rparr>
            | None \<Rightarrow>
                logged (CacheLookup (req_url req))
                  (logged (FsStat (resolve e cfg decoded))
                    (onStat e cfg c req (resolve e cfg decoded) (fs_stat e (resolve e cfg decoded)))))
      else logged (FsStat (resolve e cfg decoded))
             (onStat e cfg c req (resolve e cfg decoded) (fs_stat e (resolve e cfg decoded))))"
    using static_resolved by blast
  {
    assume "truthy (cfg_cache cfg)
         \<and> \<not> carries (req_headers req ''if-modified-since'')
         \<and> \<not> carries (req_headers req ''if-none-match'')
         \<and> c (req_url req) = Some hit"
    then show "static e cfg c req =
             \<lparr>out_result = Responded
                \<lparr>res_status = 200, res_headers = ce_headers hit,
                 res_body = (if req_method req = ''HEAD'' then None else Some (ce_body hit))\<rparr>,
              out_cache = c, out_trace = [CacheLookup (req_url req)]\<rparr>"
      by (simp add: res conditionalGET_carries)
  }
  {
    assume "carries (req_headers req ''if-modified-since'')
            \<or> carries (req_headers req ''if-none-match'')"
    then have cond: "conditionalGET req" by (simp add: conditionalGET_carries)
    show "filter is_lookup (out_trace (static e cfg c req)) = []"
      using cond by (simp add: res logged_def onStat_no_lookup)
    show "take 1 (out_trace (static e cfg c req)) = [FsStat (resolve e cfg decoded)]"
      using cond by (simp add: res logged_def)
  }
qed

theorem cache_lookup_gate_witness:
  "CacheLookup ''/a.txt'' \<in> set (out_trace (static stub_env (stub_cfg True) stale_store (get_req ''/a.txt'')))
   \<and> truthy (cfg_cache (stub_cfg True))
   \<and> static stub_env (stub_cfg True) stale_store (get_req ''/a.txt'') =
       \<lparr>out_result = Responded
          \<lparr>res_status = 200, res_headers = [(''ETag'', ''4-0'')], res_body = Some ''past''\<rparr>,
        out_cache = stale_store, out_trace = [CacheLookup ''/a.txt'']\<rparr>
   \<and> static stub_env (stub_cfg True) stale_store (stub_req ''HEAD'' ''/a.txt'' []) =
       \<lparr>out_result = Responded
          \<lparr>res_status = 200, res_headers = [(''ETag'', ''4-0'')], res_body = None\<rparr>,
        out_cache = stale_store, out_trace = [CacheLookup ''/a.txt'']\<rparr>
   \<and> filter is_lookup (out_trace (static stub_env (stub_cfg True) stale_store
         (stub_req ''GET'' ''/a.txt'' [(''if-none-match'', ''4-0'')]))) = []
   \<and> take 1 (out_trace (static stub_env (stub_cfg True) stale_store
         (stub_req ''GET'' ''/a.txt'' [(''if-none-match'', ''4-0'')]))) = [FsStat ''/srv/a.txt'']
   \<and> out_trace (static stub_env (stub_cfg True) stale_store (get_req ''/a.txt?v=1'')) =
       [CacheLookup ''/a.txt?v=1'', FsStat ''/srv/a.txt'', FsReadFile ''/srv/a.txt'',
        CacheStore ''/a.txt?v=1'']"
proof -
  let ?hit = "\<lparr>ce_headers = [(''ETag'', ''4-0'')], ce_body = ''past''\<rparr>"
  have g: "static stub_env (stub_cfg True) stale_store (get_req ''/a.txt'') =
       \<lparr>out_result = Responded
          \<lparr>res_status = 200, res_headers = [(''ETag'', ''4-0'')], res_body = Some ''past''\<rparr>,
        out_cache = stale_store, out_trace = [CacheLookup ''/a.txt'']\<rparr>"
    using cache_lookup_gate [of "''/a.txt''" stub_env "stub_cfg True" stale_store "get_req ''/a.txt''"
        "''/a.txt''" ?hit] no_dotdot_a_txt stub_decode_a_txt
    by (simp add: get_req_def stub_cfg_def carries_def stale_store_def)
  have h: "static stub_env (stub_cfg True) stale_store (stub_req ''HEAD'' ''/a.txt'' []) =
       \<lparr>out_result = Responded
          \<lparr>res_status = 200, res_headers = [(''ETag'', ''4-0'')], res_body = None\<rparr>,
        out_cache = stale_store, out_trace = [CacheLookup ''/a.txt'']\<rparr>"
    using cache_lookup_gate [of "''/a.txt''" stub_env "stub_cfg True" stale_store
        "stub_req ''HEAD'' ''/a.txt'' []" "''/a.txt''" ?hit] no_dotdot_a_txt stub_decode_a_txt
    by (simp add: stub_req_def stub_cfg_def carries_def stale_store_def)
  have b: "filter is_lookup (out_trace (static stub_env (stub_cfg True) stale_store
         (stub_req ''GET'' ''/a.txt'' [(''if-none-match'', ''4-0'')]))) = []
     \<and> take 1 (out_trace (static stub_env (stub_cfg True) stale_store
         (stub_req ''GET'' ''/a.txt'' [(''if-none-match'', ''4-0'')]))) = [FsStat ''/srv/a.txt'']"
    using cache_lookup_gate [of "''/a.txt''" stub_env "stub_cfg True" stale_store
        "stub_req ''GET'' ''/a.txt'' [(''if-none-match'', ''4-0'')]" "''/a.txt''" ?hit]
        no_dotdot_a_txt stub_decode_a_txt
    by (simp add: stub_req_def carries_def resolve_def stub_env_def stub_cfg_def)
  have t: "truthy (cfg_cache (stub_cfg True))"
    using cache_lookup_gate [of "''/a.txt''" stub_env "stub_cfg True" stale_store "get_req ''/a.txt''"
        "''/a.txt''" ?hit] g
    by simp
  have q: "out_trace (static stub_env (stub_cfg True) stale_store (get_req ''/a.txt?v=1'')) =
       [CacheLookup ''/a.txt?v=1'', FsStat ''/srv/a.txt'', FsReadFile ''/srv/a.txt'',
        CacheStore ''/a.txt?v=1'']"
    by (simp add: handler_defs stub_defs stale_store_def)
  from g h b t q show ?thesis by simp
qed

subsection \<open>Full responses\<close>

lemma onRead_full:
  assumes "modified e req (build_headers e cfg f st)"
  shows "out_result (onRead e cfg c req f st (Inr data)) =
           Responded \<lparr>res_status = 200, res_headers = build_headers e cfg f st,
                      res_body = (if req_method req = ''HEAD'' then None else Some data)\<rparr>"
    and "out_cache (onRead e cfg c req f st (Inr data)) =
           (if truthy (cfg_cache cfg)
            then c(req_url req \<mapsto> \<lparr>ce_headers = build_headers e cfg f st, ce_body = data\<rparr>)
            else c)"
  using assms by (simp_all add: onRead_def Let_def)

lemma static_miss:
  assumes "req_method req = ''GET'' \<or> req_method req = ''HEAD''"
      and "decodeURIComponent e (url_pathname e (req_url req)) = Some decoded"
      and "\<not> sublist ''..'' decoded"
      and "\<not> (truthy (cfg_cache cfg) \<and> \<not> conditionalGET req \<and> c (req_url req) \<noteq> None)"
  shows "out_result (static e cfg c req) =
           out_result (onStat e cfg c req (resolve e cfg decoded) (fs_stat e (resolve e cfg decoded)))"
    and "out_cache (static e cfg c req) =
           out_cache (onStat e cfg c req (resolve e cfg decoded) (fs_stat e (resolve e cfg decoded)))"
  using assms(4) unfolding static_resolved [OF assms(1,2,3)]
  by (auto simp: logged_def split: option.splits)

text \<open>
  C5, as stated, fails for a file whose stat size is not the number of bytes read: the
  handler sends the stat size as \<open>Content-Length\<close> and the data of the read as body. Here
  a GET for such a file, uncached and unconditional, is answered with status 200,
  \<open>Content-Length: 0\<close> and a body of 15 bytes.
\<close>

theorem content_length_counterexample:
  "static_setup ''/srv'' \<lparr>opt_maxAge = Undefined, opt_cache = Bool False\<rparr> = Some (stub_cfg False)
   \<and> fs_stat procfs_env ''/srv/version''
       = Inr \<lparr>st_size = 0, st_mtime = 0, st_isDirectory = False\<rparr>
   \<and> fs_readFile procfs_env ''/srv/version'' = Inr ''Linux version 6''
   \<and> static procfs_env (stub_cfg False) Map.empty (get_req ''/version'') =
       \<lparr>out_result = Responded
          \<lparr>res_status = 200,
           res_headers = [(''Content-Type'', ''text/plain''),
                          (''Content-Length'', ''0''),
                          (''Last-Modified'', ''Thu, 01 Jan 1970 00:00:00 GMT''),
                          (''Cache-Control'', ''public max-age=0''),
                          (''ETag'', ''0-0'')],
           res_body = Some ''Linux version 6''\<rparr>,
        out_cache = Map.empty,
        out_trace = [FsStat ''/srv/version'', FsReadFile ''/srv/version'']\<rparr>
   \<and> show_nat (length ''Linux version 6'') = ''15''
   \<and> ''0'' \<noteq> ''15''"
  by (simp add: handler_defs stub_defs static_setup_def procfs_env_def)

text \<open>
  C5, amended. A GET without validators and without a cache entry, for a path whose stat
  gives a regular file and whose read succeeds, is answered with status 200 and the data
  read as body; \<open>Content-Length\<close> is the size that stat reported, which is the byte length
  of the body whenever the stat size is the length of the data read; the ETag is
  \<open><size>-<mtime in milliseconds>\<close> of the stat result.
\<close>

theorem first_get_full_response:
  assumes "req_method req = ''GET''"
      and "decodeURIComponent e (url_pathname e (req_url req)) = Some decoded"
      and "\<not> sublist ''..'' decoded"
      and "\<not> carries (req_headers req ''if-modified-since'')"
      and "\<not> carries (req_headers req ''if-none-match'')"
      and "c (req_url req) = None"
      and "fs_stat e (resolve e cfg decoded) = Inr st"
      and "\<not> st_isDirectory st"
      and "fs_readFile e (resolve e cfg decoded) = Inr data"
  shows "\<exists>hs. out_result (static e cfg c req) =
           Responded \<lparr>res_status = 200, res_headers = hs, res_body = Some data\<rparr>
         \<and> hget hs ''Content-Length'' = Some (show_nat (st_size st))
         \<and> (st_size st = length data \<longrightarrow>
              hget hs ''Content-Length'' = Some (show_nat (length data)))
         \<and> hget hs ''ETag'' = Some (show_nat (st_size st) @ ''-'' @ show_int (st_mtime st))"
proof -
  let ?f = "resolve e cfg decoded"
  have "\<not> conditionalGET req" using assms(4,5) by (simp add: conditionalGET_carries)
  then have m: "modified e req (build_headers e cfg ?f st)"
    using not_modified_conditional by blast
  have "out_result (static e cfg c req) = out_result (onStat e cfg c req ?f (fs_stat e ?f))"
    using static_miss(1) [OF _ assms(2,3)] assms(1,6) by simp
  also have "\<dots> = out_result (onRead e cfg c req ?f st (Inr data))"
    using assms(7,8,9) by (simp add: onStat_def logged_def)
  also have "\<dots> = Responded \<lparr>res_status = 200, res_headers = build_headers e cfg ?f st,
                      res_body = Some data\<rparr>"
    using onRead_full(1) [OF m] assms(1) by simp
  finally have r: "out_result (static e cfg c req) =
      Responded \<lparr>res_status = 200, res_headers = build_headers e cfg ?f st, res_body = Some data\<rparr>" .
  have cl: "hget (build_headers e cfg ?f st) ''Content-Length'' = Some (show_nat (st_size st))"
    by (simp add: build_headers_def hget_def)
  have et: "hget (build_headers e cfg ?f st) ''ETag''
              = Some (show_nat (st_size st) @ ''-'' @ show_int (st_mtime st))"
    by (simp add: build_headers_def hget_def etag_def)
  from r cl et show ?thesis by auto
qed

theorem first_get_full_response_witness:
  "fs_stat stub_env ''/srv/a.txt'' = Inr \<lparr>st_size = 5, st_mtime = 61500, st_isDirectory = False\<rparr>
   \<and> fs_readFile stub_env ''/srv/a.txt'' = Inr ''hello''
   \<and> (\<exists>hs. out_result (static stub_env (stub_cfg False) Map.empty (get_req ''/a.txt'')) =
           Responded \<lparr>res_status = 200, res_headers = hs, res_body = Some ''hello''\<rparr>
         \<and> hget hs ''Content-Length'' = Some ''5''
         \<and> hget hs ''ETag'' = Some ''5-61500'')"
proof -
  let ?st = "\<lparr>st_size = 5, st_mtime = 61500, st_isDirectory = False\<rparr>"
  have st: "fs_stat stub_env (resolve stub_env (stub_cfg False) ''/a.txt'') = Inr ?st"
    by (simp add: stub_env_def stub_cfg_def resolve_def stub_stat_def)
  have rd: "fs_readFile stub_env (resolve stub_env (stub_cfg False) ''/a.txt'') = Inr ''hello''"
    by (simp add: stub_env_def stub_cfg_def resolve_def stub_readFile_def)
  have dec: "decodeURIComponent stub_env (url_pathname stub_env (req_url (get_req ''/a.txt'')))
               = Some ''/a.txt''"
    using stub_decode_a_txt by (simp add: get_req_def)
  have sz: "st_size ?st = length ''hello''" by simp
  have "\<exists>hs. out_result (static stub_env (stub_cfg False) Map.empty (get_req ''/a.txt'')) =
           Responded \<lparr>res_status = 200, res_headers = hs, res_body = Some ''hello''\<rparr>
         \<and> hget hs ''Content-Length'' = Some (show_nat (st_size ?st))
         \<and> (st_size ?st = length ''hello'' \<longrightarrow>
              hget hs ''Content-Length'' = Some (show_nat (length ''hello'')))
         \<and> hget hs ''ETag'' = Some (show_nat (st_size ?st) @ ''-'' @ show_int (st_mtime ?st))"
    by (rule first_get_full_response [OF _ dec no_dotdot_a_txt _ _ _ st _ rd])
       (simp_all add: get_req_def carries_def)
  then show ?thesis
    by (simp add: stub_env_def stub_stat_def stub_readFile_def show_nat.simps show_int_def digit_def)
qed

subsection \<open>Not modified\<close>

lemma no_dotdot_iff: "(\<not> sublist ''..'' s) = (indexOf s ''..'' = - 1)"
  using bitnot_indexOf [of s "''..''"] by (auto simp: bitnot_def)

text \<open>
  C6. When the validator reports not modified, the answer has status 304 and no body,
  and its headers are the built headers without those whose name begins with
  \<open>Content\<close>: \<open>Content-Type\<close> and \<open>Content-Length\<close> go, and \<open>Last-Modified\<close>,
  \<open>Cache-Control\<close> and \<open>ETag\<close> stay, in this order.
\<close>

theorem not_modified_response:
  assumes "req_method req = ''GET'' \<or> req_method req = ''HEAD''"
      and "decodeURIComponent e (url_pathname e (req_url req)) = Some decoded"
      and "\<not> sublist ''..'' decoded"
      and "fs_stat e (resolve e cfg decoded) = Inr st"
      and "\<not> st_isDirectory st"
      and "fs_readFile e (resolve e cfg decoded) = Inr data"
      and "\<not> modified e req (build_headers e cfg (resolve e cfg decoded) st)"
  shows "out_result (static e cfg c req) =
           Responded
             \<lparr>res_status = 304,
              res_headers = filter (\<lambda>kv. \<not> prefix ''Content'' (fst kv))
                              (build_headers e cfg (resolve e cfg decoded) st),
              res_body = None\<rparr>
         \<and> filter (\<lambda>kv. \<not> prefix ''Content'' (fst kv))
                   (build_headers e cfg (resolve e cfg decoded) st)
             = [(''Last-Modified'', toUTCString e (st_mtime st)),
                (''Cache-Control'', ''public max-age='' @ div1000_str e (cfg_maxAge cfg)),
                (''ETag'', etag st)]"
proof -
  let ?f = "resolve e cfg decoded"
  let ?hs = "build_headers e cfg ?f st"
  have cond: "conditionalGET req" using assms(7) by (rule not_modified_conditional)
  have "out_result (static e cfg c req) = out_result (onStat e cfg c req ?f (fs_stat e ?f))"
    using static_miss(1) [OF assms(1,2,3)] cond by simp
  also have "\<dots> = out_result (onRead e cfg c req ?f st (Inr data))"
    using assms(4,5,6) by (simp add: onStat_def logged_def)
  also have "\<dots> = Responded (notModified ?hs)"
    using assms(7) by (simp add: onRead_def Let_def)
  finally have r: "out_result (static e cfg c req) = Responded (notModified ?hs)" .
  have n: "notModified ?hs =
             \<lparr>res_status = 304,
              res_headers = filter (\<lambda>kv. \<not> prefix ''Content'' (fst kv)) ?hs,
              res_body = None\<rparr>"
    using notModified_headers [of ?hs] by (simp add: notModified_def)
  have k: "filter (\<lambda>kv. \<not> prefix ''Content'' (fst kv)) ?hs
             = [(''Last-Modified'', toUTCString e (st_mtime st)),
                (''Cache-Control'', ''public max-age='' @ div1000_str e (cfg_maxAge cfg)),
                (''ETag'', etag st)]"
    by (simp add: build_headers_def)
  from r n k show ?thesis by simp
qed

theorem not_modified_response_witness:
  "\<not> modified stub_env (stub_req ''GET'' ''/a.txt'' [(''if-none-match'', ''5-61500'')])
        (build_headers stub_env (stub_cfg True) ''/srv/a.txt''
           \<lparr>st_size = 5, st_mtime = 61500, st_isDirectory = False\<rparr>)
   \<and> out_result (static stub_env (stub_cfg True) Map.empty
         (stub_req ''GET'' ''/a.txt'' [(''if-none-match'', ''5-61500'')])) =
       Responded
         \<lparr>res_status = 304,
          res_headers = [(''Last-Modified'', ''Thu, 01 Jan 1970 00:01:01 GMT''),
                         (''Cache-Control'', ''public max-age=0''),
                         (''ETag'', ''5-61500'')],
          res_body = None\<rparr>"
proof -
  let ?req = "stub_req ''GET'' ''/a.txt'' [(''if-none-match'', ''5-61500'')]"
  let ?st = "\<lparr>st_size = 5, st_mtime = 61500, st_isDirectory = False\<rparr>"
  have f: "resolve stub_env (stub_cfg True) ''/a.txt'' = ''/srv/a.txt''"
    by (simp add: resolve_def stub_env_def stub_cfg_def)
  have hs: "build_headers stub_env (stub_cfg True) ''/srv/a.txt'' ?st = a_txt_headers"
    by (simp add: build_headers_def etag_def show_int_def div1000_str_def stub_defs)
  have m: "\<not> modified stub_env ?req (build_headers stub_env (stub_cfg True) ''/srv/a.txt'' ?st)"
    unfolding hs by (simp add: modified_def hget_def stub_req_def a_txt_headers_def)
  have dec: "decodeURIComponent stub_env (url_pathname stub_env (req_url ?req)) = Some ''/a.txt''"
    using stub_decode_a_txt by (simp add: stub_req_def)
  have st: "fs_stat stub_env (resolve stub_env (stub_cfg True) ''/a.txt'') = Inr ?st"
    unfolding f by (simp add: stub_env_def stub_stat_def)
  have rd: "fs_readFile stub_env (resolve stub_env (stub_cfg True) ''/a.txt'') = Inr ''hello''"
    unfolding f by (simp add: stub_env_def stub_readFile_def)
  have meth: "req_method ?req = ''GET'' \<or> req_method ?req = ''HEAD''"
    by (simp add: stub_req_def)
  have m': "\<not> modified stub_env ?req
        (build_headers stub_env (stub_cfg True) (resolve stub_env (stub_cfg True) ''/a.txt'') ?st)"
    unfolding f by (rule m)
  have "out_result (static stub_env (stub_cfg True) Map.empty ?req) =
       Responded
         \<lparr>res_status = 304,
          res_headers = [(''Last-Modified'', ''Thu, 01 Jan 1970 00:01:01 GMT''),
                         (''Cache-Control'', ''public max-age=0''),
                         (''ETag'', ''5-61500'')],
          res_body = None\<rparr>"
    using conjunct1 [OF not_modified_response [OF meth dec no_dotdot_a_txt st _ rd m', of Map.empty]]
    unfolding f hs by (simp add: a_txt_headers_def)
  with m show ?thesis by blast
qed

subsection \<open>Filesystem failures\<close>

lemma stub_plain_get:
  assumes "stub_decode u = Some u" and "stub_pathname u = u"
  shows "req_method (get_req u) = ''GET'' \<or> req_method (get_req u) = ''HEAD''"
    and "decodeURIComponent stub_env (url_pathname stub_env (req_url (get_req u))) = Some u"
    and "\<not> (truthy (cfg_cache (stub_cfg False)) \<and> \<not> conditionalGET (get_req u)
            \<and> Map.empty (req_url (get_req u)) \<noteq> None)"
    and "resolve stub_env (stub_cfg False) u =
           (if last (''/srv'' @ u) = CHR ''/'' then ''/srv'' @ u @ ''index.html'' else ''/srv'' @ u)"
  using assms by (simp_all add: get_req_def stub_env_def stub_cfg_def resolve_def)

text \<open>
  C8. For a request that reaches \<open>fs.stat\<close> (GET or HEAD, past the traversal check, not
  answered from the cache): a stat error with errno ENOENT gives \<open>next()\<close>; any other
  stat error gives \<open>next(err)\<close> with that error; a directory gives \<open>next()\<close>; a read
  error after a successful stat gives \<open>next(err)\<close>. No response is written in these
  cases, and the cache is as it was.
\<close>

theorem stat_failures_pass_on:
  assumes "req_method req = ''GET'' \<or> req_method req = ''HEAD''"
      and "decodeURIComponent e (url_pathname e (req_url req)) = Some decoded"
      and "\<not> sublist ''..'' decoded"
      and "\<not> (truthy (cfg_cache cfg) \<and> \<not> conditionalGET req \<and> c (req_url req) \<noteq> None)"
  shows "(fs_stat e (resolve e cfg decoded) = Inl err \<and> errno err = process_ENOENT \<longrightarrow>
            out_result (static e cfg c req) = Next)
       \<and> (fs_stat e (resolve e cfg decoded) = Inl err \<and> errno err \<noteq> process_ENOENT \<longrightarrow>
            out_result (static e cfg c req) = NextErr err)
       \<and> (fs_stat e (resolve e cfg decoded) = Inr st \<and> st_isDirectory st \<longrightarrow>
            out_result (static e cfg c req) = Next)
       \<and> (fs_stat e (resolve e cfg decoded) = Inr st \<and> \<not> st_isDirectory st
            \<and> fs_readFile e (resolve e cfg decoded) = Inl err \<longrightarrow>
            out_result (static e cfg c req) = NextErr err)
       \<and> (out_result (static e cfg c req) = Next \<or> out_result (static e cfg c req) = NextErr err \<longrightarrow>
            out_cache (static e cfg c req) = c)"
proof -
  let ?f = "resolve e cfg decoded"
  have r: "out_result (static e cfg c req) = out_result (onStat e cfg c req ?f (fs_stat e ?f))"
    using assms by (rule static_miss(1))
  have s: "out_cache (static e cfg c req) = out_cache (onStat e cfg c req ?f (fs_stat e ?f))"
    using assms by (rule static_miss(2))
  show ?thesis
    unfolding r s
    by (auto simp: onStat_def onRead_def logged_def Let_def split: sum.splits if_splits)
qed

theorem stat_failures_pass_on_witness:
  "out_result (static stub_env (stub_cfg False) Map.empty (get_req ''/none.txt'')) = Next
   \<and> fs_stat stub_env ''/srv/none.txt'' = Inl (FsErr process_ENOENT)
   \<and> out_result (static stub_env (stub_cfg False) Map.empty (get_req ''/locked'')) = NextErr (FsErr 13)
   \<and> fs_stat stub_env ''/srv/locked'' = Inl (FsErr 13)
   \<and> out_result (static stub_env (stub_cfg False) Map.empty (get_req ''/docs'')) = Next
   \<and> fs_stat stub_env ''/srv/docs'' = Inr \<lparr>st_size = 4096, st_mtime = 0, st_isDirectory = True\<rparr>
   \<and> out_result (static stub_env (stub_cfg False) Map.empty (get_req ''/bad.txt'')) = NextErr (FsErr 5)
   \<and> fs_readFile stub_env ''/srv/bad.txt'' = Inl (FsErr 5)
   \<and> out_cache (static stub_env (stub_cfg False) Map.empty (get_req ''/none.txt'')) = Map.empty"
proof -
  have fs: "fs_stat stub_env ''/srv/none.txt'' = Inl (FsErr process_ENOENT)"
    "fs_stat stub_env ''/srv/locked'' = Inl (FsErr 13)"
    "fs_stat stub_env ''/srv/docs'' = Inr \<lparr>st_size = 4096, st_mtime = 0, st_isDirectory = True\<rparr>"
    "fs_stat stub_env ''/srv/bad.txt'' = Inr \<lparr>st_size = 3, st_mtime = 0, st_isDirectory = False\<rparr>"
    "fs_readFile stub_env ''/srv/bad.txt'' = Inl (FsErr 5)"
    by (simp_all add: stub_env_def stub_stat_def stub_readFile_def process_ENOENT_def)
  have nd: "\<not> sublist ''..'' ''/none.txt''" "\<not> sublist ''..'' ''/locked''"
    "\<not> sublist ''..'' ''/docs''" "\<not> sublist ''..'' ''/bad.txt''"
    by (simp_all add: no_dotdot_iff indexOf_def)
  have a: "out_result (static stub_env (stub_cfg False) Map.empty (get_req ''/none.txt'')) = Next
      \<and> out_cache (static stub_env (stub_cfg False) Map.empty (get_req ''/none.txt'')) = Map.empty"
    using stat_failures_pass_on [where req = "get_req ''/none.txt''" and e = stub_env
        and decoded = "''/none.txt''" and cfg = "stub_cfg False" and c = Map.empty
        and err = "FsErr process_ENOENT" and st = "undefined"]
      stub_plain_get(1,2,3) [of "''/none.txt''"] nd(1) fs(1)
    by (simp add: stub_plain_get(4) stub_pathname_def)
  have b: "out_result (static stub_env (stub_cfg False) Map.empty (get_req ''/locked'')) = NextErr (FsErr 13)"
    using stat_failures_pass_on [where req = "get_req ''/locked''" and e = stub_env
        and decoded = "''/locked''" and cfg = "stub_cfg False" and c = Map.empty
        and err = "FsErr 13" and st = "undefined"]
      stub_plain_get(1,2,3) [of "''/locked''"] nd(2) fs(2)
    by (simp add: stub_plain_get(4) stub_pathname_def process_ENOENT_def)
  have c: "out_result (static stub_env (stub_cfg False) Map.empty (get_req ''/docs'')) = Next"
    using stat_failures_pass_on [where req = "get_req ''/docs''" and e = stub_env
        and decoded = "''/docs''" and cfg = "stub_cfg False" and c = Map.empty
        and err = "FsErr 0" and st = "\<lparr>st_size = 4096, st_mtime = 0, st_isDirectory = True\<rparr>"]
      stub_plain_get(1,2,3) [of "''/docs''"] nd(3) fs(3)
    by (simp add: stub_plain_get(4) stub_pathname_def)
  have d: "out_result (static stub_env (stub_cfg False) Map.empty (get_req ''/bad.txt'')) = NextErr (FsErr 5)"
    using stat_failures_pass_on [where req = "get_req ''/bad.txt''" and e = stub_env
        and decoded = "''/bad.txt''" and cfg = "stub_cfg False" and c = Map.empty
        and err = "FsErr 5" and st = "\<lparr>st_size = 3, st_mtime = 0, st_isDirectory = False\<rparr>"]
      stub_plain_get(1,2,3) [of "''/bad.txt''"] nd(4) fs(4,5)
    by (simp add: stub_plain_get(4) stub_pathname_def)
  from a b c d fs show ?thesis by simp
qed

subsection \<open>Clearing the cache\<close>

text \<open>
  What the function \<open>clearCache\<close> does to the store when it is called: without a key, or
  with the empty string (\<open>if (key)\<close> is false for it), the store is emptied; with a
  non-empty key the entry of that key goes and every other entry stays.
\<close>

lemma clearCache_body:
  "clearCache None c = Map.empty
   \<and> clearCache (Some '''') c = Map.empty
   \<and> (key \<noteq> '''' \<longrightarrow> clearCache (Some key) c = c(key := None))"
  by (simp add: clearCache_def)

text \<open>
  C9. The claim is about a \<open>clearCache\<close> that callers of the module can use. The loaded
  module has none: \<open>require\<close> returns the function that line 47 assigned to
  \<open>module.exports\<close>, which has no property of its own, and line 232 put \<open>clearCache\<close> on
  the object that \<open>exports\<close> still names, which nobody receives. Calling
  \<open>clearCache\<close> on the loaded module is a \<open>TypeError\<close>, so no entry of \<open>_cache\<close> can be
  removed from outside.
\<close>

theorem clearCache_not_exported:
  "call_member load_static (module_exports_ref load_static) ''clearCache'' = Inl TypeError
   \<and> call_member load_static (exports_ref load_static) ''clearCache'' = Inr ClearCache_function
   \<and> module_exports_ref load_static \<noteq> exports_ref load_static
   \<and> objects load_static (module_exports_ref load_static)
       = Some \<lparr>callable = Some Static_function, own = Map.empty\<rparr>"
  by (simp add: call_member_def load_static_def set_exports_property_def
                assign_module_exports_def module_init_def)

subsection \<open>The Cache-Control header\<close>

text \<open>
  C7. The handler run on a regular file with \<open>maxAge = 0\<close>: the 200 response carries
  \<open>Cache-Control: public max-age=0\<close>, without the comma of \<open>public, max-age=0\<close>. The
  quotient is not rounded either: \<open>maxAge = 1500\<close> gives \<open>max-age=1.5\<close>, and
  \<open>{cache: true}\<close>, from which \<open>maxAge\<close> is derived, gives \<open>max-age=0.001\<close>.
\<close>

theorem cache_control_header_value:
  "out_result (static stub_env (stub_cfg False) Map.empty (get_req ''/a.txt'')) =
     Responded \<lparr>res_status = 200, res_headers = a_txt_headers, res_body = Some ''hello''\<rparr>
   \<and> hget a_txt_headers ''Cache-Control'' = Some ''public max-age=0''
   \<and> ''public max-age=0'' \<noteq> ''public, max-age=0''
   \<and> static_setup ''/srv'' \<lparr>opt_maxAge = Num 1500, opt_cache = Undefined\<rparr>
       = Some \<lparr>cfg_root = ''/srv'', cfg_maxAge = Num 1500, cfg_cache = Undefined\<rparr>
   \<and> hget (build_headers stub_env \<lparr>cfg_root = ''/srv'', cfg_maxAge = Num 1500, cfg_cache = Undefined\<rparr>
        ''/srv/a.txt'' \<lparr>st_size = 5, st_mtime = 61500, st_isDirectory = False\<rparr>) ''Cache-Control''
       = Some ''public max-age=1.5''
   \<and> static_setup ''/srv'' \<lparr>opt_maxAge = Undefined, opt_cache = Bool True\<rparr>
       = Some \<lparr>cfg_root = ''/srv'', cfg_maxAge = Bool True, cfg_cache = Bool True\<rparr>
   \<and> hget (build_headers stub_env \<lparr>cfg_root = ''/srv'', cfg_maxAge = Bool True, cfg_cache = Bool True\<rparr>
        ''/srv/a.txt'' \<lparr>st_size = 5, st_mtime = 61500, st_isDirectory = False\<rparr>) ''Cache-Control''
       = Some ''public max-age=0.001''"
  by (simp add: handler_defs stub_defs static_setup_def frac3_def)

end
